theory Spec2Isabelle
  imports Main "HOL-Library.Word"
begin

section \<open>Go values shared by both packages\<close>

text \<open>
  A Go \<^verbatim>\<open>error\<close> value. \<^verbatim>\<open>fmt.Errorf(msg)\<close> with a constant format string yields
  \<open>Errorf msg\<close>; an error handed back by a callee outside this file (a socket
  operation, the operations registry) is whatever that callee produced, here \<open>Errno n\<close>
  or \<open>OpError op e\<close> (the shape of \<^verbatim>\<open>*net.OpError\<close>). A nil error is \<open>None\<close> of
  \<open>error option\<close>.
\<close>

datatype error = Errorf string | Errno nat | OpError string error

text \<open>A Go pointer: nil, or the address of a live object.\<close>

datatype ptr = Null | Ptr nat

text \<open>
  \<^verbatim>\<open>time.Duration\<close> is an int64 count of nanoseconds; the constants are those of
  package \<^verbatim>\<open>time\<close>. Multiplication wraps as int64 multiplication does.
\<close>

type_synonym Duration = "64 word"

definition time_Nanosecond :: Duration where "time_Nanosecond = 1"
definition time_Microsecond :: Duration where "time_Microsecond = 1000 * time_Nanosecond"
definition time_Millisecond :: Duration where "time_Millisecond = 1000 * time_Microsecond"
definition time_Second :: Duration where "time_Second = 1000 * time_Millisecond"

text \<open>The outcome of a call that may panic instead of returning.\<close>

datatype 'a outcome = Return 'a | Panic

section \<open>Package tcp: \<^verbatim>\<open>ExtractConn\<close>\<close>

text \<open>
  A value of interface type \<^verbatim>\<open>net.Conn\<close>: the nil interface, or a dynamic type
  together with a pointer of that type (which may itself be a nil pointer).
  \<open>other_Conn name p\<close> stands for every implementation of \<^verbatim>\<open>net.Conn\<close> other than
  \<^verbatim>\<open>*tls.Conn\<close> and \<^verbatim>\<open>*net.TCPConn\<close> (for instance \<^verbatim>\<open>*net.UnixConn\<close>).
\<close>

datatype net_Conn =
    nil_Conn
  | tls_Conn ptr
  | net_TCPConn ptr
  | other_Conn string ptr

text \<open>
  The \<^verbatim>\<open>tls.Conn\<close> struct, reduced to the private field the function reads through
  reflection: \<^verbatim>\<open>conn net.Conn\<close>.
\<close>

record tls_Conn_struct =
  conn :: net_Conn

text \<open>
  The memory the function can see: the \<^verbatim>\<open>tls.Conn\<close> objects by address, and the
  state of the operating system's sockets (of any type \<open>'w\<close>).
\<close>

record 'w memory =
  tls_objs :: "nat \<rightharpoonup> tls_Conn_struct"
  os_world :: 'w

text \<open>
  \<^verbatim>\<open>ExtractConn\<close> (lines 13-32). The result is the Go pair
  \<^verbatim>\<open>(*net.TCPConn, error)\<close>, or a panic; the memory is threaded through so that
  what the function writes (nothing) is part of the model.

  \<^item> \<^verbatim>\<open>conn.(*tls.Conn)\<close> fails for the nil interface and for every other dynamic
    type; it succeeds for a \<^verbatim>\<open>*tls.Conn\<close>, also for a nil pointer of that type.
  \<^item> \<^verbatim>\<open>reflect.ValueOf(tlsConn).Elem()\<close> of a nil pointer is the zero
    \<^verbatim>\<open>reflect.Value\<close>, on which \<^verbatim>\<open>FieldByName\<close> panics. Go has no dangling
    pointers; an address with no object is treated the same way.
  \<^item> \<^verbatim>\<open>field.Interface()\<close> is the content of the field; \<^verbatim>\<open>c.(*net.TCPConn)\<close>
    succeeds exactly when its dynamic type is \<^verbatim>\<open>*net.TCPConn\<close>.
\<close>

definition ExtractConn ::
  "net_Conn \<Rightarrow> 'w memory \<Rightarrow> (ptr \<times> error option) outcome \<times> 'w memory" where
  "ExtractConn c m =
     (case c of
        tls_Conn tlsConn \<Rightarrow>
          (case tlsConn of
             Null \<Rightarrow> (Panic, m)
           | Ptr a \<Rightarrow>
               (case tls_objs m a of
                  None \<Rightarrow> (Panic, m)
                | Some s \<Rightarrow>
                    (case conn s of
                       net_TCPConn tcpConn \<Rightarrow> (Return (tcpConn, None), m)
                     | _ \<Rightarrow> (Return (Null, Some (Errorf ''Connection is not a net.TCPConn'')), m))))
      | _ \<Rightarrow> (Return (Null, Some (Errorf ''Connection is not a tls.Conn'')), m))"

section \<open>Package tcp: \<^verbatim>\<open>SetTimeouts\<close>\<close>

text \<open>
  The three socket operations \<^verbatim>\<open>SetTimeouts\<close> calls are not defined in this file:
  \<^verbatim>\<open>SetUserTimeout\<close> lives in a platform-specific file of the package, and
  \<^verbatim>\<open>SetKeepAlive\<close> and \<^verbatim>\<open>SetKeepAlivePeriod\<close> are methods of \<^verbatim>\<open>*net.TCPConn\<close>.
  They are parameters of the model: each takes the connection, its argument and the
  state of the world, and gives back an error or nil and the new state.
\<close>

record 'w socket_api =
  SetUserTimeout :: "ptr \<Rightarrow> Duration \<Rightarrow> 'w \<Rightarrow> error option \<times> 'w"
  SetKeepAlive :: "ptr \<Rightarrow> bool \<Rightarrow> 'w \<Rightarrow> error option \<times> 'w"
  SetKeepAlivePeriod :: "ptr \<Rightarrow> Duration \<Rightarrow> 'w \<Rightarrow> error option \<times> 'w"

text \<open>\<^verbatim>\<open>SetTimeouts\<close> (lines 35-60).\<close>

definition SetTimeouts :: "'w socket_api \<Rightarrow> ptr \<Rightarrow> 'w \<Rightarrow> error option \<times> 'w" where
  "SetTimeouts os c w =
     (case SetUserTimeout os c (time_Second * 30) w of
        (Some err, w1) \<Rightarrow> (Some err, w1)
      | (None, w1) \<Rightarrow>
          (case SetKeepAlive os c True w1 of
             (Some err, w2) \<Rightarrow> (Some err, w2)
           | (None, w2) \<Rightarrow>
               (case SetKeepAlivePeriod os c (3 * time_Second) w2 of
                  (Some err, w3) \<Rightarrow> (Some err, w3)
                | (None, w3) \<Rightarrow> (None, w3))))"

text \<open>
  To speak about which operations are attempted and in which order, any implementation
  of the socket operations can be instrumented: \<open>recording os\<close> behaves as \<open>os\<close> and
  appends every call it receives to a journal kept beside the world.
\<close>

datatype sock_call =
    SetUserTimeout_call ptr Duration
  | SetKeepAlive_call ptr bool
  | SetKeepAlivePeriod_call ptr Duration

definition recording :: "'w socket_api \<Rightarrow> (sock_call list \<times> 'w) socket_api" where
  "recording os =
     \<lparr> SetUserTimeout = (\<lambda>c d (j, w).
         case SetUserTimeout os c d w of (r, w') \<Rightarrow> (r, (j @ [SetUserTimeout_call c d], w'))),
       SetKeepAlive = (\<lambda>c b (j, w).
         case SetKeepAlive os c b w of (r, w') \<Rightarrow> (r, (j @ [SetKeepAlive_call c b], w'))),
       SetKeepAlivePeriod = (\<lambda>c d (j, w).
         case SetKeepAlivePeriod os c d w of (r, w') \<Rightarrow> (r, (j @ [SetKeepAlivePeriod_call c d], w'))) \<rparr>"

text \<open>
  A small operating system to run the model on: every socket has the three options,
  and a plan says which calls are rejected and with which error. A rejected call
  leaves the socket as it was; a call on a nil or unknown connection is rejected with
  \<open>Errno 22\<close> (EINVAL).
\<close>

record socket =
  user_timeout :: "Duration option"
  keepalive :: bool
  keepalive_period :: "Duration option"

type_synonym sockets = "nat \<rightharpoonup> socket"

definition on_socket ::
  "(sock_call \<Rightarrow> error option) \<Rightarrow> sock_call \<Rightarrow> ptr \<Rightarrow> (socket \<Rightarrow> socket) \<Rightarrow> sockets
     \<Rightarrow> error option \<times> sockets" where
  "on_socket plan call c f w =
     (case c of
        Null \<Rightarrow> (Some (Errno 22), w)
      | Ptr a \<Rightarrow>
          (case w a of
             None \<Rightarrow> (Some (Errno 22), w)
           | Some s \<Rightarrow>
               (case plan call of
                  Some e \<Rightarrow> (Some e, w)
                | None \<Rightarrow> (None, w(a \<mapsto> f s)))))"

definition sim_os :: "(sock_call \<Rightarrow> error option) \<Rightarrow> sockets socket_api" where
  "sim_os plan =
     \<lparr> SetUserTimeout = (\<lambda>c d. on_socket plan (SetUserTimeout_call c d) c (\<lambda>s. s\<lparr>user_timeout := Some d\<rparr>)),
       SetKeepAlive = (\<lambda>c b. on_socket plan (SetKeepAlive_call c b) c (\<lambda>s. s\<lparr>keepalive := b\<rparr>)),
       SetKeepAlivePeriod = (\<lambda>c d. on_socket plan (SetKeepAlivePeriod_call c d) c (\<lambda>s. s\<lparr>keepalive_period := Some d\<rparr>)) \<rparr>"

definition fresh_socket :: socket where
  "fresh_socket = \<lparr> user_timeout = None, keepalive = False, keepalive_period = None \<rparr>"

definition no_failures :: "sock_call \<Rightarrow> error option" where
  "no_failures call = None"

definition keepalive_fails :: "error \<Rightarrow> sock_call \<Rightarrow> error option" where
  "keepalive_fails e call = (case call of SetKeepAlive_call c b \<Rightarrow> Some e | _ \<Rightarrow> None)"

definition period_fails :: "error \<Rightarrow> sock_call \<Rightarrow> error option" where
  "period_fails e call = (case call of SetKeepAlivePeriod_call c d \<Rightarrow> Some e | _ \<Rightarrow> None)"

definition user_timeout_fails :: "error \<Rightarrow> sock_call \<Rightarrow> error option" where
  "user_timeout_fails e call = (case call of SetUserTimeout_call c d \<Rightarrow> Some e | _ \<Rightarrow> None)"

section \<open>Package main: the values \<^verbatim>\<open>autoRemoveExpiredTokens\<close> works on\<close>

text \<open>
  Modelled from the spec: the package \<^verbatim>\<open>operationtype\<close> is not in src. Its type
  \<^verbatim>\<open>Type\<close> enumerates the kinds of operation; the function names three of them, and
  \<open>OtherType n\<close> stands for every other kind.
\<close>

datatype operationtype =
    ClusterJoinToken
  | CertificateAddToken
  | RemoveExpiredTokens
  | OtherType nat

text \<open>
  Modelled from the spec: the operation classes of package \<^verbatim>\<open>operations\<close> are not in
  src; the function names \<^verbatim>\<open>OperationClassTask\<close> only.
\<close>

datatype OperationClass = OperationClassTask | OperationClassWebsocket | OperationClassToken

text \<open>
  A \<^verbatim>\<open>time.Time\<close> is an instant, counted in nanoseconds from a fixed epoch;
  \<^verbatim>\<open>t.After(u)\<close> holds when \<open>t\<close> is strictly later than \<open>u\<close>.
\<close>

type_synonym Time = int

definition After :: "Time \<Rightarrow> Time \<Rightarrow> bool" where
  "After t u = (u < t)"

text \<open>
  A value of type \<^verbatim>\<open>any\<close> as stored in an operation's metadata: nil, or a dynamic
  type with its value.
\<close>

datatype any = nil_any | time_Time Time | string_any string | int_any int | bool_any bool

text \<open>
  What the function reads of an \<^verbatim>\<open>*operations.Operation\<close>: \<^verbatim>\<open>ID()\<close>, \<^verbatim>\<open>Type()\<close>
  and \<^verbatim>\<open>Metadata()\<close>. The metadata is a \<^verbatim>\<open>map[string]any\<close>, kept as an association
  list and read with \<open>map_of\<close>; a missing key (also in a nil map) reads as nil.
\<close>

record Operation =
  op_ID :: string
  op_Type :: operationtype
  op_Metadata :: "(string \<times> any) list"

text \<open>A \<^verbatim>\<open>context.Context\<close> is only handed on to \<^verbatim>\<open>Wait\<close>; it is an opaque number.\<close>

type_synonym Context = nat

datatype level = Debug | Info | Error

datatype ctx_value = ctx_err error | ctx_str string

text \<open>
  Modelled from the spec: the operations registry (\<^verbatim>\<open>operations.Clone\<close>,
  \<^verbatim>\<open>operations.OperationCreate\<close>, the methods \<^verbatim>\<open>Cancel\<close>, \<^verbatim>\<open>Start\<close> and \<^verbatim>\<open>Wait\<close> of
  an operation), the clock (\<^verbatim>\<open>time.Now\<close>) and the logger are not in src. They are
  parameters of the model, each a function of the state of the world \<open>'w\<close>:
  \<^item> \<open>operations_Clone\<close> gives the operations of the registry in the order in which the
    \<^verbatim>\<open>range\<close> loop visits them;
  \<^item> \<open>Operation_Cancel\<close> gives the error of \<^verbatim>\<open>op.Cancel()\<close> (the channel is discarded by
    the caller);
  \<^item> \<open>operations_OperationCreate\<close> takes the project name, the class and the type (the
    other arguments are nil, and the run hook is handled below);
  \<^item> \<open>Operation_Wait\<close> gives the pair \<^verbatim>\<open>(bool, error)\<close> of \<^verbatim>\<open>op.Wait(ctx)\<close>.
  The daemon \<^verbatim>\<open>d\<close> is used for \<^verbatim>\<open>d.State()\<close> only, which is part of the world.
\<close>

record 'w operations_api =
  operations_Clone :: "'w \<Rightarrow> Operation list \<times> 'w"
  time_Now :: "'w \<Rightarrow> Time \<times> 'w"
  Operation_Cancel :: "Operation \<Rightarrow> 'w \<Rightarrow> error option \<times> 'w"
  operations_OperationCreate ::
    "string \<Rightarrow> OperationClass \<Rightarrow> operationtype \<Rightarrow> 'w \<Rightarrow> (error + Operation) \<times> 'w"
  Operation_Start :: "Operation \<Rightarrow> 'w \<Rightarrow> error option \<times> 'w"
  Operation_Wait :: "Operation \<Rightarrow> Context \<Rightarrow> 'w \<Rightarrow> (bool \<times> error option) \<times> 'w"
  logger_Log :: "level \<Rightarrow> string \<Rightarrow> (string \<times> ctx_value) list \<Rightarrow> 'w \<Rightarrow> 'w"

section \<open>Package main: \<^verbatim>\<open>autoRemoveExpiredTokens\<close>\<close>

text \<open>
  The loop of lines 77-89 over the cloned operations, with the list
  \<^verbatim>\<open>expiredTokenOps\<close> as accumulator. \<^verbatim>\<open>time.Now()\<close> is read once for every operation
  that passed the type check and whose \<^verbatim>\<open>"expiresAt"\<close> is a \<^verbatim>\<open>time.Time\<close>, since
  \<^verbatim>\<open>&&\<close> evaluates its right operand only then.
\<close>

fun range_ops ::
  "'w operations_api \<Rightarrow> Operation list \<Rightarrow> Operation list \<Rightarrow> 'w \<Rightarrow> Operation list \<times> 'w" where
  "range_ops api [] expiredTokenOps w = (expiredTokenOps, w)"
| "range_ops api (x # rest) expiredTokenOps w =
     (if op_Type x \<noteq> ClusterJoinToken \<and> op_Type x \<noteq> CertificateAddToken
      then range_ops api rest expiredTokenOps w
      else
        (case map_of (op_Metadata x) ''expiresAt'' of
           Some (time_Time expiry) \<Rightarrow>
             (case time_Now api w of
                (now, w') \<Rightarrow>
                  if After now expiry
                  then range_ops api rest (expiredTokenOps @ [x]) w'
                  else range_ops api rest expiredTokenOps w')
         | _ \<Rightarrow> range_ops api rest expiredTokenOps w))"

text \<open>
  The closure \<^verbatim>\<open>opRun\<close> (lines 95-104), over the captured list \<^verbatim>\<open>expiredTokenOps\<close>.
  Its parameter, the operation that runs it, is shadowed by the loop variable and
  never used. A failed \<^verbatim>\<open>Cancel\<close> is logged at debug level; the closure returns nil
  in every case.
\<close>

fun opRun ::
  "'w operations_api \<Rightarrow> Operation list \<Rightarrow> Operation \<Rightarrow> 'w \<Rightarrow> error option \<times> 'w" where
  "opRun api [] self w = (None, w)"
| "opRun api (x # rest) self w =
     (case Operation_Cancel api x w of
        (Some err, w') \<Rightarrow>
          opRun api rest self
            (logger_Log api Debug ''Failed removing expired token''
               [(''err'', ctx_err err), (''id'', ctx_str (op_ID x))] w')
      | (None, w') \<Rightarrow> opRun api rest self w')"

text \<open>
  \<^verbatim>\<open>autoRemoveExpiredTokens\<close> (lines 74-125).

  Modelled from the spec: \<^verbatim>\<open>operations.OperationCreate\<close> and \<^verbatim>\<open>Operation.Start\<close> are
  not in src. The run hook handed to \<^verbatim>\<open>OperationCreate\<close> is what the started
  operation executes ("cancels it as a batch inside one newly created housekeeping
  operation"): the model runs \<open>opRun\<close> once \<^verbatim>\<open>Start\<close> has returned nil and before
  \<^verbatim>\<open>Wait\<close> returns. What the operation does with the hook's result is not the
  function's concern; \<^verbatim>\<open>Wait\<close>'s result is discarded by the function.
\<close>

definition autoRemoveExpiredTokens ::
  "'w operations_api \<Rightarrow> Context \<Rightarrow> 'w \<Rightarrow> error option \<times> 'w" where
  "autoRemoveExpiredTokens api ctx w =
     (case operations_Clone api w of
        (ops, w0) \<Rightarrow>
          (case range_ops api ops [] w0 of
             (expiredTokenOps, w1) \<Rightarrow>
               if length expiredTokenOps = 0 then (None, w1)
               else
                 (case operations_OperationCreate api [] OperationClassTask RemoveExpiredTokens w1 of
                    (Inl err, w2) \<Rightarrow>
                      (Some err,
                       logger_Log api Error ''Failed to start remove expired tokens operation''
                         [(''err'', ctx_err err)] w2)
                  | (Inr hk, w2) \<Rightarrow>
                      (case Operation_Start api hk
                              (logger_Log api Info ''Removing expired tokens'' [] w2) of
                         (Some err, w4) \<Rightarrow>
                           (Some err,
                            logger_Log api Error ''Failed to remove expired tokens''
                              [(''err'', ctx_err err)] w4)
                       | (None, w4) \<Rightarrow>
                           (case opRun api expiredTokenOps hk w4 of
                              (r, w5) \<Rightarrow>
                                (case Operation_Wait api hk ctx w5 of
                                   (waited, w6) \<Rightarrow>
                                     (None,
                                      logger_Log api Debug ''Done removing expired tokens'' [] w6)))))))"



section \<open>Observing the calls of \<^verbatim>\<open>autoRemoveExpiredTokens\<close>\<close>

text \<open>
  As for the socket operations, any implementation of the registry, the clock and the
  logger can be instrumented: \<open>observed api\<close> behaves as \<open>api\<close> and appends every call
  to a journal of events (a call of \<^verbatim>\<open>OperationCreate\<close> together with what it returned).
\<close>

datatype event =
    Clone_ev
  | Now_ev
  | Cancel_ev Operation
  | OperationCreate_ev string OperationClass operationtype "error + Operation"
  | Start_ev Operation
  | Wait_ev Operation Context
  | Log_ev level string "(string \<times> ctx_value) list"

definition observed :: "'w operations_api \<Rightarrow> (event list \<times> 'w) operations_api" where
  "observed api =
     \<lparr> operations_Clone = (\<lambda>(j, w).
         case operations_Clone api w of (r, w') \<Rightarrow> (r, (j @ [Clone_ev], w'))),
       time_Now = (\<lambda>(j, w).
         case time_Now api w of (r, w') \<Rightarrow> (r, (j @ [Now_ev], w'))),
       Operation_Cancel = (\<lambda>x (j, w).
         case Operation_Cancel api x w of (r, w') \<Rightarrow> (r, (j @ [Cancel_ev x], w'))),
       operations_OperationCreate = (\<lambda>project cls ty (j, w).
         case operations_OperationCreate api project cls ty w of
           (r, w') \<Rightarrow> (r, (j @ [OperationCreate_ev project cls ty r], w'))),
       Operation_Start = (\<lambda>x (j, w).
         case Operation_Start api x w of (r, w') \<Rightarrow> (r, (j @ [Start_ev x], w'))),
       Operation_Wait = (\<lambda>x ctx (j, w).
         case Operation_Wait api x ctx w of (r, w') \<Rightarrow> (r, (j @ [Wait_ev x ctx], w'))),
       logger_Log = (\<lambda>l msg kv (j, w). (j @ [Log_ev l msg kv], logger_Log api l msg kv w)) \<rparr>"

definition is_Cancel :: "event \<Rightarrow> bool" where
  "is_Cancel e = (case e of Cancel_ev x \<Rightarrow> True | _ \<Rightarrow> False)"

definition is_cancel_failure_log :: "event \<Rightarrow> bool" where
  "is_cancel_failure_log e =
     (case e of Log_ev l msg kv \<Rightarrow> l = Debug \<and> msg = ''Failed removing expired token'' | _ \<Rightarrow> False)"

text \<open>
  The spec's words for the operations the cleanup is about: "filters to two specific
  operation kinds (a cluster-join-token operation and a certificate-add-token
  operation), checks each operation's metadata for an expiry timestamp" whose "expiry
  has passed" at the instant \<open>now\<close>.
\<close>

definition is_token_op :: "Operation \<Rightarrow> bool" where
  "is_token_op x = (op_Type x = ClusterJoinToken \<or> op_Type x = CertificateAddToken)"

definition expiry_of :: "Operation \<Rightarrow> Time option" where
  "expiry_of x =
     (case map_of (op_Metadata x) ''expiresAt'' of Some (time_Time t) \<Rightarrow> Some t | _ \<Rightarrow> None)"

definition token_expired :: "Time \<Rightarrow> Operation \<Rightarrow> bool" where
  "token_expired now x =
     (is_token_op x \<and> (case expiry_of x of Some t \<Rightarrow> t < now | None \<Rightarrow> False))"

definition reads_clock :: "Operation \<Rightarrow> bool" where
  "reads_clock x = (is_token_op x \<and> expiry_of x \<noteq> None)"

text \<open>
  A small registry to run the model on. The world is the list of registered
  operations. The clock stands at \<open>now\<close>; creating the housekeeping operation gives
  \<open>created\<close> (an error, or the new operation, which is then registered); starting it
  gives \<open>started\<close>; cancelling an operation fails as \<open>cancel_plan\<close> says and otherwise
  removes it from the registry; waiting gives \<open>waited\<close>; logging leaves the registry
  alone.
\<close>

definition sim_registry ::
  "Time \<Rightarrow> error + Operation \<Rightarrow> error option \<Rightarrow> (Operation \<Rightarrow> error option)
     \<Rightarrow> bool \<times> error option \<Rightarrow> (Operation list) operations_api" where
  "sim_registry now created started cancel_plan waited =
     \<lparr> operations_Clone = (\<lambda>w. (w, w)),
       time_Now = (\<lambda>w. (now, w)),
       Operation_Cancel = (\<lambda>x w.
         case cancel_plan x of Some e \<Rightarrow> (Some e, w) | None \<Rightarrow> (None, removeAll x w)),
       operations_OperationCreate = (\<lambda>project cls ty w.
         case created of Inl e \<Rightarrow> (Inl e, w) | Inr hk \<Rightarrow> (Inr hk, w @ [hk])),
       Operation_Start = (\<lambda>x w. (started, w)),
       Operation_Wait = (\<lambda>x ctx w. (waited, w)),
       logger_Log = (\<lambda>l msg kv w. w) \<rparr>"

definition join_token :: "string \<Rightarrow> (string \<times> any) list \<Rightarrow> Operation" where
  "join_token ident meta = \<lparr> op_ID = ident, op_Type = ClusterJoinToken, op_Metadata = meta \<rparr>"

definition cert_token :: "string \<Rightarrow> (string \<times> any) list \<Rightarrow> Operation" where
  "cert_token ident meta = \<lparr> op_ID = ident, op_Type = CertificateAddToken, op_Metadata = meta \<rparr>"

definition housekeeping :: Operation where
  "housekeeping = \<lparr> op_ID = ''hk'', op_Type = RemoveExpiredTokens, op_Metadata = [] \<rparr>"

definition cancel_ok :: "Operation \<Rightarrow> error option" where
  "cancel_ok x = None"


text \<open>
  Sample operations and registries. At the instant 100, the tokens \<open>a\<close> and \<open>d\<close> have
  expired and \<open>b\<close> has not; \<open>c\<close> is not a token operation; the \<^verbatim>\<open>"expiresAt"\<close> of \<open>e\<close>
  is a string, and \<open>f\<close> has none.
\<close>

definition token_a :: Operation where
  "token_a = join_token ''a'' [(''expiresAt'', time_Time 50)]"

definition token_b :: Operation where
  "token_b = cert_token ''b'' [(''expiresAt'', time_Time 200)]"

definition image_op :: Operation where
  "image_op = \<lparr> op_ID = ''c'', op_Type = OtherType 7, op_Metadata = [(''expiresAt'', time_Time 1)] \<rparr>"

definition token_d :: Operation where
  "token_d = cert_token ''d'' [(''expiresAt'', time_Time 99)]"

definition token_e :: Operation where
  "token_e = join_token ''e'' [(''expiresAt'', string_any ''1970-01-01T00:00:00Z'')]"

definition token_f :: Operation where
  "token_f = join_token ''f'' [(''secret'', string_any ''s'')]"

definition sample_registry :: "Operation list" where
  "sample_registry = [token_a, token_b, image_op, token_d, token_e, token_f]"

definition quiet_registry :: "Operation list" where
  "quiet_registry = [token_b, image_op, token_e, token_f]"

text \<open>
  Four registries at the instant 100: one on which everything succeeds; one that
  refuses every cancellation and whose \<^verbatim>\<open>Wait\<close> reports an error; one that cannot
  create an operation; one that cannot start it.
\<close>

definition healthy :: "(Operation list) operations_api" where
  "healthy = sim_registry 100 (Inr housekeeping) None cancel_ok (True, None)"




section \<open>Facts about the constants\<close>

lemma time_Second_value: "time_Second = 1000000000"
  by (simp add: time_Second_def time_Millisecond_def time_Microsecond_def time_Nanosecond_def)

lemma sint_thirty_seconds: "sint (time_Second * 30) = 30000000000"
  by (simp add: time_Second_value)

lemma sint_three_seconds: "sint (3 * time_Second) = 3000000000"
  by (simp add: time_Second_value)


section \<open>\<^verbatim>\<open>SetTimeouts\<close>: the three steps\<close>

text \<open>
  Claim C1. On a connection for which the three socket operations succeed, each in
  the state its predecessor left, \<^verbatim>\<open>SetTimeouts\<close> returns nil, and the journal of
  any implementation shows exactly three calls, in this order: the user timeout with
  \<^verbatim>\<open>time.Second*30\<close>, keepalive with \<^verbatim>\<open>true\<close>, the keepalive period with
  \<^verbatim>\<open>3*time.Second\<close>. The two durations are 30 and 3 seconds in nanoseconds; the
  int64 products do not wrap.
\<close>

theorem SetTimeouts_success:
  assumes "SetUserTimeout os c (time_Second * 30) w = (None, w1)"
      and "SetKeepAlive os c True w1 = (None, w2)"
      and "SetKeepAlivePeriod os c (3 * time_Second) w2 = (None, w3)"
  shows "SetTimeouts (recording os) c (j, w) =
           (None, (j @ [SetUserTimeout_call c (time_Second * 30),
                        SetKeepAlive_call c True,
                        SetKeepAlivePeriod_call c (3 * time_Second)], w3))
         \<and> SetTimeouts os c w = (None, w3)
         \<and> sint (time_Second * 30) = 30000000000 \<and> sint (3 * time_Second) = 3000000000"
  using assms
  by (simp add: SetTimeouts_def recording_def sint_thirty_seconds sint_three_seconds)

text \<open>
  Claim C1, at a concrete input: a fresh socket on an operating system that rejects
  nothing ends with a user timeout of 30 s, keepalive on and a period of 3 s.
\<close>

theorem SetTimeouts_success_witness:
  "SetTimeouts (recording (sim_os no_failures)) (Ptr 1) ([], [1 \<mapsto> fresh_socket]) =
     (None, ([SetUserTimeout_call (Ptr 1) 30000000000, SetKeepAlive_call (Ptr 1) True,
              SetKeepAlivePeriod_call (Ptr 1) 3000000000],
             [1 \<mapsto> \<lparr> user_timeout = Some 30000000000, keepalive = True,
                      keepalive_period = Some 3000000000 \<rparr>]))"
proof -
  let ?w1 = "[1 \<mapsto> fresh_socket\<lparr>user_timeout := Some (time_Second * 30)\<rparr>]"
  let ?w2 = "[1 \<mapsto> fresh_socket\<lparr>user_timeout := Some (time_Second * 30), keepalive := True\<rparr>]"
  let ?w3 = "[1 \<mapsto> fresh_socket\<lparr>user_timeout := Some (time_Second * 30), keepalive := True,
                keepalive_period := Some (3 * time_Second)\<rparr>]"
  have h1: "SetUserTimeout (sim_os no_failures) (Ptr 1) (time_Second * 30) [1 \<mapsto> fresh_socket]
              = (None, ?w1)"
    by (simp add: sim_os_def on_socket_def no_failures_def)
  have h2: "SetKeepAlive (sim_os no_failures) (Ptr 1) True ?w1 = (None, ?w2)"
    by (simp add: sim_os_def on_socket_def no_failures_def)
  have h3: "SetKeepAlivePeriod (sim_os no_failures) (Ptr 1) (3 * time_Second) ?w2 = (None, ?w3)"
    by (simp add: sim_os_def on_socket_def no_failures_def)
  show ?thesis
    using SetTimeouts_success [OF h1 h2 h3, of "[]"]
    by (simp add: time_Second_value fresh_socket_def)
qed

text \<open>
  Claim C4. Whichever step fails first, \<^verbatim>\<open>SetTimeouts\<close> returns that step's error,
  the journal ends with the failing call (no later step and no undoing call is made),
  and the world is the one the failing call left. In particular, when enabling
  keepalive fails, the journal holds the user timeout call with 30 s and the
  keepalive call, and nothing else.
\<close>

theorem SetTimeouts_first_failure:
  "(SetUserTimeout os c (time_Second * 30) w = (Some e, w1) \<longrightarrow>
      SetTimeouts (recording os) c (j, w) =
        (Some e, (j @ [SetUserTimeout_call c (time_Second * 30)], w1)))
   \<and> (SetUserTimeout os c (time_Second * 30) w = (None, w1) \<and>
      SetKeepAlive os c True w1 = (Some e, w2) \<longrightarrow>
      SetTimeouts (recording os) c (j, w) =
        (Some e, (j @ [SetUserTimeout_call c (time_Second * 30), SetKeepAlive_call c True], w2)))
   \<and> (SetUserTimeout os c (time_Second * 30) w = (None, w1) \<and>
      SetKeepAlive os c True w1 = (None, w2) \<and>
      SetKeepAlivePeriod os c (3 * time_Second) w2 = (Some e, w3) \<longrightarrow>
      SetTimeouts (recording os) c (j, w) =
        (Some e, (j @ [SetUserTimeout_call c (time_Second * 30), SetKeepAlive_call c True,
                       SetKeepAlivePeriod_call c (3 * time_Second)], w3)))"
  by (simp add: SetTimeouts_def recording_def)

text \<open>
  Claim C4, at concrete inputs, one per step. When the operating system rejects the
  user timeout, nothing else is tried and the socket is untouched. When it rejects
  the keepalive call, the period is never set and the socket keeps the user timeout
  of 30 s that the first step set. When it rejects the period, the first two
  settings stay.
\<close>

theorem SetTimeouts_first_failure_witness:
  "SetTimeouts (recording (sim_os (user_timeout_fails (Errno 1)))) (Ptr 1) ([], [1 \<mapsto> fresh_socket]) =
     (Some (Errno 1),
      ([SetUserTimeout_call (Ptr 1) 30000000000],
       [1 \<mapsto> \<lparr> user_timeout = None, keepalive = False, keepalive_period = None \<rparr>]))
   \<and> SetTimeouts (recording (sim_os (keepalive_fails (OpError ''set'' (Errno 9))))) (Ptr 1)
       ([], [1 \<mapsto> fresh_socket]) =
     (Some (OpError ''set'' (Errno 9)),
      ([SetUserTimeout_call (Ptr 1) 30000000000, SetKeepAlive_call (Ptr 1) True],
       [1 \<mapsto> \<lparr> user_timeout = Some 30000000000, keepalive = False, keepalive_period = None \<rparr>]))
   \<and> SetTimeouts (recording (sim_os (period_fails (OpError ''set'' (Errno 22))))) (Ptr 1)
       ([], [1 \<mapsto> fresh_socket]) =
     (Some (OpError ''set'' (Errno 22)),
      ([SetUserTimeout_call (Ptr 1) 30000000000, SetKeepAlive_call (Ptr 1) True,
        SetKeepAlivePeriod_call (Ptr 1) 3000000000],
       [1 \<mapsto> \<lparr> user_timeout = Some 30000000000, keepalive = True, keepalive_period = None \<rparr>]))"
proof -
  let ?w0 = "[1 \<mapsto> fresh_socket]"
  let ?w1 = "[1 \<mapsto> fresh_socket\<lparr>user_timeout := Some (time_Second * 30)\<rparr>]"
  let ?w2 = "[1 \<mapsto> fresh_socket\<lparr>user_timeout := Some (time_Second * 30), keepalive := True\<rparr>]"
  let ?e1 = "Errno 1" and ?e2 = "OpError ''set'' (Errno 9)" and ?e3 = "OpError ''set'' (Errno 22)"
  note first = SetTimeouts_first_failure [THEN conjunct1, rule_format]
  note second = SetTimeouts_first_failure [THEN conjunct2, THEN conjunct1, rule_format]
  note third = SetTimeouts_first_failure [THEN conjunct2, THEN conjunct2, rule_format]
  have a: "SetUserTimeout (sim_os (user_timeout_fails ?e1)) (Ptr 1) (time_Second * 30) ?w0
             = (Some ?e1, ?w0)"
    by (simp add: sim_os_def on_socket_def user_timeout_fails_def)
  have b: "SetUserTimeout (sim_os (keepalive_fails ?e2)) (Ptr 1) (time_Second * 30) ?w0 = (None, ?w1)
           \<and> SetKeepAlive (sim_os (keepalive_fails ?e2)) (Ptr 1) True ?w1 = (Some ?e2, ?w1)"
    by (simp add: sim_os_def on_socket_def keepalive_fails_def)
  have c: "SetUserTimeout (sim_os (period_fails ?e3)) (Ptr 1) (time_Second * 30) ?w0 = (None, ?w1)
           \<and> SetKeepAlive (sim_os (period_fails ?e3)) (Ptr 1) True ?w1 = (None, ?w2)
           \<and> SetKeepAlivePeriod (sim_os (period_fails ?e3)) (Ptr 1) (3 * time_Second) ?w2
               = (Some ?e3, ?w2)"
    by (simp add: sim_os_def on_socket_def period_fails_def)
  show ?thesis
    using first [OF a, of "[]"] second [OF b, of "[]"] third [OF c, of "[]"]
    by (simp add: time_Second_value fresh_socket_def)
qed

text \<open>
  Claim C5, refuted as stated. \<^verbatim>\<open>SetKeepAlive\<close> and \<^verbatim>\<open>SetKeepAlivePeriod\<close> report a
  rejected option in the same way (an \<^verbatim>\<open>*net.OpError\<close> with \<^verbatim>\<open>Op: "set"\<close> around the
  system call's error). Whether the second or the third step is the one that fails,
  \<^verbatim>\<open>SetTimeouts\<close> returns the very same value: nothing in it tells the caller which
  setting could not be applied.
\<close>

theorem SetTimeouts_no_step_identity_counterexample:
  "fst (SetTimeouts (sim_os (keepalive_fails (OpError ''set'' (Errno 9)))) (Ptr 1)
          [1 \<mapsto> fresh_socket])
     = Some (OpError ''set'' (Errno 9))
   \<and> fst (SetTimeouts (sim_os (period_fails (OpError ''set'' (Errno 9)))) (Ptr 1)
          [1 \<mapsto> fresh_socket])
     = Some (OpError ''set'' (Errno 9))"
  by (simp add: SetTimeouts_def sim_os_def on_socket_def keepalive_fails_def period_fails_def)

text \<open>
  Claim C5, amended. \<^verbatim>\<open>SetTimeouts\<close> returns the error \<open>e\<close> exactly when \<open>e\<close> is the
  error of the first failing socket operation: the value is handed on unchanged, with
  nothing added to it.
\<close>

theorem SetTimeouts_error_verbatim:
  "fst (SetTimeouts os c w) = Some e \<longleftrightarrow>
     fst (SetUserTimeout os c (time_Second * 30) w) = Some e
   \<or> fst (SetUserTimeout os c (time_Second * 30) w) = None
       \<and> fst (SetKeepAlive os c True (snd (SetUserTimeout os c (time_Second * 30) w))) = Some e
   \<or> fst (SetUserTimeout os c (time_Second * 30) w) = None
       \<and> fst (SetKeepAlive os c True (snd (SetUserTimeout os c (time_Second * 30) w))) = None
       \<and> fst (SetKeepAlivePeriod os c (3 * time_Second)
               (snd (SetKeepAlive os c True (snd (SetUserTimeout os c (time_Second * 30) w)))))
           = Some e"
  by (auto simp: SetTimeouts_def split: prod.splits option.splits)

section \<open>\<^verbatim>\<open>ExtractConn\<close>\<close>

text \<open>
  Claim C2. For a \<^verbatim>\<open>*tls.Conn\<close> whose private field \<^verbatim>\<open>conn\<close> holds a \<^verbatim>\<open>*net.TCPConn\<close>,
  \<^verbatim>\<open>ExtractConn\<close> returns that very pointer (the address stored in the field, not a
  copy of the object) and a nil error.
\<close>

theorem ExtractConn_genuine:
  assumes "tls_objs m a = Some s" and "conn s = net_TCPConn q"
  shows "ExtractConn (tls_Conn (Ptr a)) m = (Return (q, None), m)"
  using assms by (simp add: ExtractConn_def)

text \<open>
  Claim C2, at a concrete input: the \<^verbatim>\<open>tls.Conn\<close> at address 7 wraps the TCP connection
  at address 1.
\<close>

theorem ExtractConn_genuine_witness:
  "ExtractConn (tls_Conn (Ptr 7))
     \<lparr> tls_objs = [7 \<mapsto> \<lparr> conn = net_TCPConn (Ptr 1) \<rparr>], os_world = [1 \<mapsto> fresh_socket] \<rparr>
   = (Return (Ptr 1, None),
      \<lparr> tls_objs = [7 \<mapsto> \<lparr> conn = net_TCPConn (Ptr 1) \<rparr>], os_world = [1 \<mapsto> fresh_socket] \<rparr>)"
  by (rule ExtractConn_genuine [where s = "\<lparr> conn = net_TCPConn (Ptr 1) \<rparr>"]) simp_all

text \<open>
  Claim C3. For a connection that is not a \<^verbatim>\<open>*tls.Conn\<close> (the nil interface, a
  \<^verbatim>\<open>*net.TCPConn\<close>, any other implementation), \<^verbatim>\<open>ExtractConn\<close> returns without
  panicking, with a nil handle and the error "Connection is not a tls.Conn" (the
  spec's NotSecureTransport), and the memory and sockets are as before. For every
  input whatsoever the memory and the sockets are left as they were.
\<close>

theorem ExtractConn_not_tls:
  "((\<forall>p. c \<noteq> tls_Conn p) \<longrightarrow>
      ExtractConn c m = (Return (Null, Some (Errorf ''Connection is not a tls.Conn'')), m))
   \<and> snd (ExtractConn c' m') = m'"
  by (cases c; cases c')
     (auto simp: ExtractConn_def split: ptr.splits option.splits net_Conn.splits)

text \<open>
  Claim C3, at a concrete input: a plain TCP connection is refused, and even the
  panicking call on a nil \<^verbatim>\<open>*tls.Conn\<close> leaves the memory alone.
\<close>

theorem ExtractConn_not_tls_witness:
  "ExtractConn (net_TCPConn (Ptr 1)) \<lparr> tls_objs = Map.empty, os_world = [1 \<mapsto> fresh_socket] \<rparr>
     = (Return (Null, Some (Errorf ''Connection is not a tls.Conn'')),
        \<lparr> tls_objs = Map.empty, os_world = [1 \<mapsto> fresh_socket] \<rparr>)
   \<and> snd (ExtractConn (tls_Conn Null) \<lparr> tls_objs = Map.empty, os_world = [1 \<mapsto> fresh_socket] \<rparr>)
     = \<lparr> tls_objs = Map.empty, os_world = [1 \<mapsto> fresh_socket] \<rparr>"
  using ExtractConn_not_tls [of "net_TCPConn (Ptr 1)"
          "\<lparr> tls_objs = Map.empty, os_world = [1 \<mapsto> fresh_socket] \<rparr>"
          "tls_Conn Null"
          "\<lparr> tls_objs = Map.empty, os_world = [1 \<mapsto> fresh_socket] \<rparr>"]
  by simp

text \<open>
  Claim C6. For a \<^verbatim>\<open>*tls.Conn\<close> whose private field \<^verbatim>\<open>conn\<close> holds anything but a
  \<^verbatim>\<open>*net.TCPConn\<close> (nil, another \<^verbatim>\<open>*tls.Conn\<close>, any other implementation),
  \<^verbatim>\<open>ExtractConn\<close> returns a nil handle and the error "Connection is not a
  net.TCPConn" (the spec's NotRawTransport).
\<close>

theorem ExtractConn_not_tcp:
  assumes "tls_objs m a = Some s" and "\<forall>q. conn s \<noteq> net_TCPConn q"
  shows "ExtractConn (tls_Conn (Ptr a)) m =
           (Return (Null, Some (Errorf ''Connection is not a net.TCPConn'')), m)"
  using assms by (cases "conn s") (simp_all add: ExtractConn_def)

text \<open>
  Claim C6, at a concrete input: the \<^verbatim>\<open>tls.Conn\<close> at address 7 runs over a Unix socket.
\<close>

theorem ExtractConn_not_tcp_witness:
  "ExtractConn (tls_Conn (Ptr 7))
     \<lparr> tls_objs = [7 \<mapsto> \<lparr> conn = other_Conn ''*net.UnixConn'' (Ptr 1) \<rparr>], os_world = () \<rparr>
   = (Return (Null, Some (Errorf ''Connection is not a net.TCPConn'')),
      \<lparr> tls_objs = [7 \<mapsto> \<lparr> conn = other_Conn ''*net.UnixConn'' (Ptr 1) \<rparr>], os_world = () \<rparr>)"
  by (rule ExtractConn_not_tcp [where s = "\<lparr> conn = other_Conn ''*net.UnixConn'' (Ptr 1) \<rparr>"])
     simp_all

section \<open>The loops of \<^verbatim>\<open>autoRemoveExpiredTokens\<close>\<close>

text \<open>What the instrumented registry does, call by call.\<close>

lemma observed_simps [simp]:
  "operations_Clone (observed api) (j, w) =
     (fst (operations_Clone api w), (j @ [Clone_ev], snd (operations_Clone api w)))"
  "time_Now (observed api) (j, w) = (fst (time_Now api w), (j @ [Now_ev], snd (time_Now api w)))"
  "Operation_Cancel (observed api) x (j, w) =
     (fst (Operation_Cancel api x w), (j @ [Cancel_ev x], snd (Operation_Cancel api x w)))"
  "operations_OperationCreate (observed api) project cls ty (j, w) =
     (fst (operations_OperationCreate api project cls ty w),
      (j @ [OperationCreate_ev project cls ty (fst (operations_OperationCreate api project cls ty w))],
       snd (operations_OperationCreate api project cls ty w)))"
  "Operation_Start (observed api) x (j, w) =
     (fst (Operation_Start api x w), (j @ [Start_ev x], snd (Operation_Start api x w)))"
  "Operation_Wait (observed api) x ctx (j, w) =
     (fst (Operation_Wait api x ctx w), (j @ [Wait_ev x ctx], snd (Operation_Wait api x ctx w)))"
  "logger_Log (observed api) l msg kv (j, w) = (j @ [Log_ev l msg kv], logger_Log api l msg kv w)"
  by (simp_all add: observed_def split: prod.splits)

text \<open>One iteration of the loop over the cloned operations.\<close>

lemma range_ops_Cons:
  "range_ops api (x # rest) acc w =
     (if reads_clock x
      then range_ops api rest
             (if After (fst (time_Now api w)) (the (expiry_of x)) then acc @ [x] else acc)
             (snd (time_Now api w))
      else range_ops api rest acc w)"
  by (simp add: reads_clock_def is_token_op_def expiry_of_def
           split: option.split any.split prod.split)

lemma token_expired_iff:
  "token_expired now x \<longleftrightarrow> reads_clock x \<and> After now (the (expiry_of x))"
  by (auto simp: token_expired_def reads_clock_def After_def split: option.splits)

text \<open>
  With a clock that reads \<open>now\<close> throughout, the loop selects exactly the expired token
  operations, in the order of the registry.
\<close>

lemma range_ops_selects:
  assumes "\<forall>w'. fst (time_Now api w') = now"
  shows "fst (range_ops api ops acc w) = acc @ filter (token_expired now) ops"
proof (induction ops arbitrary: acc w)
  case Nil
  show ?case by simp
next
  case (Cons x rest)
  show ?case
    unfolding range_ops_Cons
    by (simp add: Cons.IH assms token_expired_iff)
qed

text \<open>The loop only reads the clock, and observing it changes nothing else.\<close>

lemma range_ops_journal:
  "fst (snd (range_ops (observed api) ops acc (j, w))) =
     j @ replicate (length (filter reads_clock ops)) Now_ev"
proof (induction ops arbitrary: acc j w)
  case Nil
  show ?case by simp
next
  case (Cons x rest)
  show ?case
    unfolding range_ops_Cons
    by (simp add: Cons.IH replicate_append_same)
qed

lemma range_ops_faithful:
  "fst (range_ops (observed api) ops acc (j, w)) = fst (range_ops api ops acc w)
   \<and> snd (snd (range_ops (observed api) ops acc (j, w))) = snd (range_ops api ops acc w)"
proof (induction ops arbitrary: acc j w)
  case Nil
  show ?case by simp
next
  case (Cons x rest)
  show ?case
    unfolding range_ops_Cons
    by (simp add: Cons.IH)
qed

lemma range_ops_pure:
  assumes "\<forall>w'. snd (time_Now api w') = w'"
  shows "snd (range_ops api ops acc w) = w"
proof (induction ops arbitrary: acc w)
  case Nil
  show ?case by simp
next
  case (Cons x rest)
  show ?case
    unfolding range_ops_Cons
    by (simp add: Cons.IH assms)
qed

text \<open>Whatever the clock says, only operations with a \<^verbatim>\<open>time.Time\<close> expiry are selected.\<close>

lemma range_ops_sound:
  "y \<in> set (fst (range_ops api ops acc w)) \<Longrightarrow> y \<in> set acc \<or> y \<in> set ops \<and> reads_clock y"
proof (induction ops arbitrary: acc w)
  case Nil
  then show ?case by simp
next
  case (Cons x rest)
  show ?case
  proof (cases "reads_clock x")
    case True
    let ?acc = "if After (fst (time_Now api w)) (the (expiry_of x)) then acc @ [x] else acc"
    from Cons.prems True
    have "y \<in> set (fst (range_ops api rest ?acc (snd (time_Now api w))))"
      unfolding range_ops_Cons by simp
    then have "y \<in> set ?acc \<or> y \<in> set rest \<and> reads_clock y"
      by (rule Cons.IH)
    with True show ?thesis
      by (auto split: if_splits)
  next
    case False
    from Cons.prems False have "y \<in> set (fst (range_ops api rest acc w))"
      unfolding range_ops_Cons by simp
    then have "y \<in> set acc \<or> y \<in> set rest \<and> reads_clock y"
      by (rule Cons.IH)
    then show ?thesis by auto
  qed
qed

lemma is_Cancel_simps [simp]:
  "is_Cancel (Cancel_ev x)" "\<not> is_Cancel Clone_ev" "\<not> is_Cancel Now_ev"
  "\<not> is_Cancel (OperationCreate_ev project cls ty r)" "\<not> is_Cancel (Start_ev x)"
  "\<not> is_Cancel (Wait_ev x ctx)" "\<not> is_Cancel (Log_ev l msg kv)"
  by (simp_all add: is_Cancel_def)

lemma is_cancel_failure_log_simp [simp]:
  "is_cancel_failure_log (Log_ev Debug ''Failed removing expired token'' kv)"
  by (simp add: is_cancel_failure_log_def)


lemma opRun_observed:
  "\<exists>cs w'. opRun (observed api) xs self (j, w) = (None, (j @ cs, w'))
      \<and> filter is_Cancel cs = map Cancel_ev xs
      \<and> list_all (\<lambda>e. is_Cancel e \<or> is_cancel_failure_log e) cs"
proof (induction xs arbitrary: j w)
  case Nil
  then show ?case by simp
next
  case (Cons x rest)
  show ?case
  proof (cases "fst (Operation_Cancel api x w)")
    case None
    obtain cs w' where
      "opRun (observed api) rest self (j @ [Cancel_ev x], snd (Operation_Cancel api x w)) =
         (None, ((j @ [Cancel_ev x]) @ cs, w'))"
      "filter is_Cancel cs = map Cancel_ev rest"
      "list_all (\<lambda>e. is_Cancel e \<or> is_cancel_failure_log e) cs"
      using Cons.IH by blast
    then show ?thesis
      using None
      by (intro exI [of _ "Cancel_ev x # cs"] exI [of _ w']) simp
  next
    case (Some err)
    let ?kv = "[(''err'', ctx_err err), (''id'', ctx_str (op_ID x))]"
    let ?l = "Log_ev Debug ''Failed removing expired token'' ?kv"
    obtain cs w' where
      "opRun (observed api) rest self
         (j @ [Cancel_ev x] @ [?l],
          logger_Log api Debug ''Failed removing expired token'' ?kv (snd (Operation_Cancel api x w))) =
         (None, ((j @ [Cancel_ev x] @ [?l]) @ cs, w'))"
      "filter is_Cancel cs = map Cancel_ev rest"
      "list_all (\<lambda>e. is_Cancel e \<or> is_cancel_failure_log e) cs"
      using Cons.IH by blast
    then show ?thesis
      using Some
      by (intro exI [of _ "Cancel_ev x # ?l # cs"] exI [of _ w'])
         simp
  qed
qed




section \<open>The four ways through \<^verbatim>\<open>autoRemoveExpiredTokens\<close>\<close>

lemma cleanup_nothing_expired:
  assumes "operations_Clone api w = (ops, w0)" and "range_ops api ops [] w0 = ([], w1)"
  shows "autoRemoveExpiredTokens api ctx w = (None, w1)"
  using assms by (simp add: autoRemoveExpiredTokens_def)

lemma cleanup_create_failed:
  assumes "operations_Clone api w = (ops, w0)" and "range_ops api ops [] w0 = (ex, w1)"
      and "ex \<noteq> []"
      and "operations_OperationCreate api [] OperationClassTask RemoveExpiredTokens w1 = (Inl err, w2)"
  shows "autoRemoveExpiredTokens api ctx w =
           (Some err, logger_Log api Error ''Failed to start remove expired tokens operation''
                        [(''err'', ctx_err err)] w2)"
  using assms by (simp add: autoRemoveExpiredTokens_def)

lemma cleanup_start_failed:
  assumes "operations_Clone api w = (ops, w0)" and "range_ops api ops [] w0 = (ex, w1)"
      and "ex \<noteq> []"
      and "operations_OperationCreate api [] OperationClassTask RemoveExpiredTokens w1 = (Inr hk, w2)"
      and "Operation_Start api hk (logger_Log api Info ''Removing expired tokens'' [] w2) = (Some err, w4)"
  shows "autoRemoveExpiredTokens api ctx w =
           (Some err, logger_Log api Error ''Failed to remove expired tokens''
                        [(''err'', ctx_err err)] w4)"
  using assms by (simp add: autoRemoveExpiredTokens_def)

lemma cleanup_ran:
  assumes "operations_Clone api w = (ops, w0)" and "range_ops api ops [] w0 = (ex, w1)"
      and "ex \<noteq> []"
      and "operations_OperationCreate api [] OperationClassTask RemoveExpiredTokens w1 = (Inr hk, w2)"
      and "Operation_Start api hk (logger_Log api Info ''Removing expired tokens'' [] w2) = (None, w4)"
  shows "autoRemoveExpiredTokens api ctx w =
           (None, logger_Log api Debug ''Done removing expired tokens'' []
                    (snd (Operation_Wait api hk ctx (snd (opRun api ex hk w4)))))"
  using assms by (simp add: autoRemoveExpiredTokens_def split: prod.split)

lemma range_ops_observed:
  "range_ops (observed api) ops acc (j, w) =
     (fst (range_ops api ops acc w),
      (j @ replicate (length (filter reads_clock ops)) Now_ev, snd (range_ops api ops acc w)))"
  using range_ops_faithful [of api ops acc j w] range_ops_journal [of api ops acc j w]
  by (metis prod.collapse)


lemma cleanup_cancels_only_selected:
  assumes "Cancel_ev x \<in> set (fst (snd (autoRemoveExpiredTokens (observed api) ctx (j, w))))"
  shows "Cancel_ev x \<in> set j \<or>
         x \<in> set (fst (range_ops api (fst (operations_Clone api w)) []
                         (snd (operations_Clone api w))))"
proof -
  let ?ops = "fst (operations_Clone api w)"
  let ?w0 = "snd (operations_Clone api w)"
  let ?ex = "fst (range_ops api ?ops [] ?w0)"
  let ?w1 = "snd (range_ops api ?ops [] ?w0)"
  let ?j1 = "j @ [Clone_ev] @ replicate (length (filter reads_clock ?ops)) Now_ev"
  let ?cr = "operations_OperationCreate api [] OperationClassTask RemoveExpiredTokens ?w1"
  let ?j2 = "?j1 @ [OperationCreate_ev [] OperationClassTask RemoveExpiredTokens (fst ?cr)]"
  have s1: "operations_Clone (observed api) (j, w) = (?ops, (j @ [Clone_ev], ?w0))"
    by simp
  have s2: "range_ops (observed api) ?ops [] (j @ [Clone_ev], ?w0) = (?ex, (?j1, ?w1))"
    by (simp add: range_ops_observed)
  have j1: "Cancel_ev x \<in> set ?j1 \<Longrightarrow> Cancel_ev x \<in> set j"
    by auto
  show ?thesis
  proof (cases "?ex = []")
    case True
    with s2 have s2': "range_ops (observed api) ?ops [] (j @ [Clone_ev], ?w0) = ([], (?j1, ?w1))"
      by simp
    from assms show ?thesis
      unfolding cleanup_nothing_expired [OF s1 s2'] using j1 by simp
  next
    case False
    show ?thesis
    proof (cases "fst ?cr")
      case (Inl err)
      have s3: "operations_OperationCreate (observed api) [] OperationClassTask RemoveExpiredTokens
                  (?j1, ?w1) = (Inl err, (?j2, snd ?cr))"
        by (simp add: Inl)
      from assms show ?thesis
        unfolding cleanup_create_failed [OF s1 s2 False s3] using j1 by simp
    next
      case (Inr hk)
      let ?w3 = "logger_Log api Info ''Removing expired tokens'' [] (snd ?cr)"
      let ?j4 = "?j2 @ [Log_ev Info ''Removing expired tokens'' []] @ [Start_ev hk]"
      have s3: "operations_OperationCreate (observed api) [] OperationClassTask RemoveExpiredTokens
                  (?j1, ?w1) = (Inr hk, (?j2, snd ?cr))"
        by (simp add: Inr)
      show ?thesis
      proof (cases "fst (Operation_Start api hk ?w3)")
        case None
        have s4: "Operation_Start (observed api) hk
                    (logger_Log (observed api) Info ''Removing expired tokens'' [] (?j2, snd ?cr))
                    = (None, (?j4, snd (Operation_Start api hk ?w3)))"
          by (simp add: None)
        obtain cs w5 where
          run: "opRun (observed api) ?ex hk (?j4, snd (Operation_Start api hk ?w3)) =
                  (None, (?j4 @ cs, w5))" and
          cancels: "filter is_Cancel cs = map Cancel_ev ?ex"
          using opRun_observed [of api ?ex hk ?j4 "snd (Operation_Start api hk ?w3)"] by blast
        from assms have "Cancel_ev x \<in> set j \<or> Cancel_ev x \<in> set cs"
          unfolding cleanup_ran [OF s1 s2 False s3 s4] run by auto
        moreover have "Cancel_ev x \<in> set cs \<Longrightarrow> x \<in> set ?ex"
        proof -
          assume "Cancel_ev x \<in> set cs"
          then have "Cancel_ev x \<in> set (filter is_Cancel cs)" by simp
          then show "x \<in> set ?ex" unfolding cancels by auto
        qed
        ultimately show ?thesis by blast
      next
        case (Some err)
        have s4: "Operation_Start (observed api) hk
                    (logger_Log (observed api) Info ''Removing expired tokens'' [] (?j2, snd ?cr))
                    = (Some err, (?j4, snd (Operation_Start api hk ?w3)))"
          by (simp add: Some)
        from assms show ?thesis
          unfolding cleanup_start_failed [OF s1 s2 False s3 s4] using j1 by simp
      qed
    qed
  qed
qed

section \<open>The sample registries\<close>

lemmas sample_defs = token_a_def token_b_def image_op_def token_d_def token_e_def token_f_def
  sample_registry_def join_token_def cert_token_def housekeeping_def

lemma sim_registry_simps [simp]:
  "operations_Clone (sim_registry now created started cancel_plan waited) w = (w, w)"
  "time_Now (sim_registry now created started cancel_plan waited) w = (now, w)"
  "Operation_Cancel (sim_registry now created started cancel_plan waited) x w =
     (case cancel_plan x of Some e \<Rightarrow> (Some e, w) | None \<Rightarrow> (None, removeAll x w))"
  "operations_OperationCreate (sim_registry now created started cancel_plan waited) project cls ty w =
     (case created of Inl e \<Rightarrow> (Inl e, w) | Inr hk \<Rightarrow> (Inr hk, w @ [hk]))"
  "Operation_Start (sim_registry now created started cancel_plan waited) x w = (started, w)"
  "Operation_Wait (sim_registry now created started cancel_plan waited) x ctx w = (waited, w)"
  "logger_Log (sim_registry now created started cancel_plan waited) l msg kv w = w"
  by (simp_all add: sim_registry_def)


section \<open>\<^verbatim>\<open>autoRemoveExpiredTokens\<close>: what is cancelled\<close>



text \<open>
  Claim C9. On a registry whose \<^verbatim>\<open>Clone\<close> and clock only read, if no token operation
  has expired at \<open>now\<close>, the cleanup function returns nil having made no call but the
  \<^verbatim>\<open>Clone\<close> and the clock readings: no operation is created, started, cancelled or
  waited for, nothing is logged, and the world is the one it started in.
\<close>

theorem cleanup_nothing_to_do:
  assumes clock: "\<forall>w'. time_Now api w' = (now, w')"
      and clone: "operations_Clone api w = (ops, w)"
      and none: "filter (token_expired now) ops = []"
  shows "autoRemoveExpiredTokens (observed api) ctx (j, w) =
           (None, (j @ Clone_ev # replicate (length (filter reads_clock ops)) Now_ev, w))
         \<and> autoRemoveExpiredTokens api ctx w = (None, w)"
proof -
  have c1: "\<forall>w'. fst (time_Now api w') = now" and c2: "\<forall>w'. snd (time_Now api w') = w'"
    using clock by simp_all
  have r: "range_ops api ops [] w = ([], w)"
    using range_ops_selects [OF c1, of ops "[]" w] range_ops_pure [OF c2, of ops "[]" w] none
    by (metis append_Nil prod.collapse)
  have s1: "operations_Clone (observed api) (j, w) = (ops, (j @ [Clone_ev], w))"
    by (simp add: clone)
  have s2: "range_ops (observed api) ops [] (j @ [Clone_ev], w) =
              ([], (j @ Clone_ev # replicate (length (filter reads_clock ops)) Now_ev, w))"
    by (simp add: range_ops_observed r)
  show ?thesis
    using cleanup_nothing_expired [OF s1 s2] cleanup_nothing_expired [OF clone r] by simp
qed

text \<open>
  Claim C9, at a concrete input: the registry without \<open>a\<close> and \<open>d\<close>; the clock is read
  once, for \<open>b\<close>.
\<close>

theorem cleanup_nothing_to_do_witness:
  "autoRemoveExpiredTokens (observed healthy) 0 ([], quiet_registry) =
     (None, ([Clone_ev, Now_ev], quiet_registry))
   \<and> autoRemoveExpiredTokens healthy 0 quiet_registry = (None, quiet_registry)"
proof -
  have h1: "\<forall>w'. time_Now healthy w' = (100, w')"
    by (simp add: healthy_def)
  have h2: "operations_Clone healthy quiet_registry = (quiet_registry, quiet_registry)"
    by (simp add: healthy_def)
  have h3: "filter (token_expired 100) quiet_registry = []"
    by (simp add: quiet_registry_def sample_defs token_expired_def is_token_op_def expiry_of_def)
  have n: "length (filter reads_clock quiet_registry) = 1"
    by (simp add: quiet_registry_def sample_defs reads_clock_def is_token_op_def expiry_of_def)
  show ?thesis
    using cleanup_nothing_to_do [OF h1 h2 h3, of 0 "[]"] by (simp add: n)
qed

text \<open>
  Claim C10. Whatever the registry, the clock and the outcome of every call: an
  operation whose metadata has no \<^verbatim>\<open>"expiresAt"\<close> entry, or one that is not a
  \<^verbatim>\<open>time.Time\<close>, is never put on the list \<^verbatim>\<open>expiredTokenOps\<close>, and the cleanup function
  never calls \<^verbatim>\<open>Cancel\<close> on it.
\<close>

theorem no_expiry_never_cancelled:
  assumes "\<forall>t. map_of (op_Metadata x) ''expiresAt'' \<noteq> Some (time_Time t)"
  shows "x \<notin> set (fst (range_ops api ops [] w))
         \<and> Cancel_ev x \<notin> set (fst (snd (autoRemoveExpiredTokens (observed api) ctx ([], w))))"
proof -
  have "expiry_of x = None"
    using assms by (simp add: expiry_of_def split: option.split any.split)
  then have nr: "\<not> reads_clock x"
    by (simp add: reads_clock_def)
  have a: "x \<notin> set (fst (range_ops api ops' [] w'))" for ops' w'
    using range_ops_sound [of x api ops' "[]" w'] nr by auto
  show ?thesis
    using a cleanup_cancels_only_selected [of x api ctx "[]" w] by auto
qed

text \<open>
  Claim C10, at a concrete input: the token operations \<open>e\<close> (a string as expiry) and
  \<open>f\<close> (no expiry) are in the sample registry and are not cancelled.
\<close>

theorem no_expiry_never_cancelled_witness:
  "Cancel_ev token_e \<notin> set (fst (snd (autoRemoveExpiredTokens (observed healthy) 0 ([], sample_registry))))
   \<and> Cancel_ev token_f \<notin> set (fst (snd (autoRemoveExpiredTokens (observed healthy) 0 ([], sample_registry))))
   \<and> token_e \<in> set sample_registry \<and> token_f \<in> set sample_registry
   \<and> is_token_op token_e \<and> is_token_op token_f"
proof -
  have e: "\<forall>t. map_of (op_Metadata token_e) ''expiresAt'' \<noteq> Some (time_Time t)"
    by (simp add: sample_defs)
  have f: "\<forall>t. map_of (op_Metadata token_f) ''expiresAt'' \<noteq> Some (time_Time t)"
    by (simp add: sample_defs)
  show ?thesis
    using no_expiry_never_cancelled [OF e, of healthy sample_registry sample_registry 0]
          no_expiry_never_cancelled [OF f, of healthy sample_registry sample_registry 0]
    by (simp add: sample_registry_def is_token_op_def token_e_def token_f_def join_token_def)
qed

section \<open>Which errors reach the caller\<close>




end
